theory Spec2Isabelle
  imports
    Main
    "HOL-Library.Sublist"
    "HOL-Library.Char_ord"
    "HOL-Library.List_Lexorder"
    "HOL-Library.Multiset"
begin

section \<open>Python values, exceptions and effects\<close>

text \<open>
  A Python \<open>str\<close> is a \<^typ>\<open>string\<close>: a list of code points, here the code points below
  256. The values a row of the driver or an argument of the functions can hold are
  \<open>None\<close>, an \<open>int\<close> or a \<open>str\<close>.
\<close>

datatype pyval = PNone | PInt int | PStr string

type_synonym uuid = string

text \<open>
  The f-strings of the source's messages are kept as data: the constructor names the
  message, its arguments are the interpolated values.
\<close>

datatype value_error =
    MissingDocId
  | MissingSectionList
  | NonStringIdentifier
  | DocumentNotFound uuid
  | NoSectionsFound string string "pyval list"
  | HierarchicalSearchFailed string string "pyval list"

text \<open>
  \<open>Exception site e\<close> is the source's \<open>raise Exception(f"...: {str(e)}") from e\<close> at the
  named function: a plain \<open>Exception\<close> that carries \<open>e\<close> as its \<open>__cause__\<close>.
  \<open>StoreError\<close> stands for whatever the database driver raises.
\<close>

datatype wrap_site = In_generate_markdown | In_fetch_sections_content

datatype exn =
    ValueError value_error
  | KeyError string
  | TypeError
  | AttributeError
  | StoreError string
  | HTTPException nat string
  | Exception wrap_site exn

datatype py_class =
    ValueError_class | KeyError_class | TypeError_class | AttributeError_class
  | StoreError_class | HTTPException_class | Exception_class

fun class_of :: "exn \<Rightarrow> py_class" where
  "class_of (ValueError _) = ValueError_class"
| "class_of (KeyError _) = KeyError_class"
| "class_of TypeError = TypeError_class"
| "class_of AttributeError = AttributeError_class"
| "class_of (StoreError _) = StoreError_class"
| "class_of (HTTPException _ _) = HTTPException_class"
| "class_of (Exception _ _) = Exception_class"

fun cause :: "exn \<Rightarrow> exn option" where
  "cause (Exception _ e) = Some e"
| "cause _ = None"

text \<open>
  What a call leaves behind outside its result: the calls that reach the data store and
  the records handed to the logger, in the order they happen.
\<close>

type_synonym ltree = "string list"

datatype db_call =
    OpenCursor
  | GetDocument uuid
  | PathFetch uuid "string list"
  | ContentFetch uuid "ltree list"

datatype log_level = DEBUG | INFO | ERROR

datatype log_message =
    Error_in_generate_markdown exn
  | Error_in_fetch_sections_content exn
  | Found_matching_sections nat string string
  | Matched_sections string string "string list"
  | Retrieved_sections nat string string "ltree list"

datatype effect = Query db_call | Log log_level log_message

section \<open>String operations of the renderer\<close>

text \<open>
  \<open>str.strip()\<close> removes the white space of Python at both ends; below 256 these are the
  code points 9 to 13, 28 to 32, 0x85 and 0xA0.
\<close>

definition isspace :: "char \<Rightarrow> bool" where
  "isspace c =
     (let n = (of_char c :: nat)
      in (9 \<le> n \<and> n \<le> 13) \<or> (28 \<le> n \<and> n \<le> 32) \<or> n = 133 \<or> n = 160)"

definition strip :: "string \<Rightarrow> string" where
  "strip s = rev (dropWhile isspace (rev (dropWhile isspace s)))"

fun join :: "string \<Rightarrow> string list \<Rightarrow> string" where
  "join sep [] = []"
| "join sep [x] = x"
| "join sep (x # y # ys) = x @ sep @ join sep (y # ys)"

section \<open>generate\_markdown\<close>

type_synonym row = "string \<rightharpoonup> pyval"

text \<open>\<open>section[key]\<close>: a missing key raises \<open>KeyError\<close>.\<close>

definition getitem :: "row \<Rightarrow> string \<Rightarrow> exn + pyval" where
  "getitem section k = (case section k of None \<Rightarrow> Inl (KeyError k) | Some v \<Rightarrow> Inr v)"

text \<open>
  \<open>"#" * level + " " + heading\<close>: the repetition needs an \<open>int\<close> (a count below one
  gives the empty string), the concatenation a \<open>str\<close>; anything else is a \<open>TypeError\<close>.
\<close>

definition md_heading_of :: "pyval \<Rightarrow> pyval \<Rightarrow> exn + string" where
  "md_heading_of level heading =
     (case level of
        PInt n \<Rightarrow>
          (case heading of
             PStr h \<Rightarrow> Inr (replicate (nat n) CHR ''#'' @ '' '' @ h)
           | _ \<Rightarrow> Inl TypeError)
      | _ \<Rightarrow> Inl TypeError)"

text \<open>
  The body of the \<open>for\<close> loop, on the list \<open>md_lines\<close> built so far.
  \<open>content.strip()\<close> exists only on a \<open>str\<close>: on \<open>None\<close> or an \<open>int\<close> the attribute lookup
  raises \<open>AttributeError\<close>. The line appended is \<open>content\<close> itself.
\<close>

definition section_step :: "row \<Rightarrow> string list \<Rightarrow> exn + string list" where
  "section_step section md_lines =
     (case getitem section ''heading'' of Inl e \<Rightarrow> Inl e | Inr heading \<Rightarrow>
      case getitem section ''level'' of Inl e \<Rightarrow> Inl e | Inr level \<Rightarrow>
      case getitem section ''content'' of Inl e \<Rightarrow> Inl e | Inr content \<Rightarrow>
      case md_heading_of level heading of Inl e \<Rightarrow> Inl e | Inr md_heading \<Rightarrow>
      case content of
        PStr c \<Rightarrow>
          if strip c \<noteq> []
          then Inr (md_lines @ [md_heading, ''''] @ [c, ''''])
          else Inr (md_lines @ [md_heading, ''''])
      | _ \<Rightarrow> Inl AttributeError)"

fun section_loop :: "row list \<Rightarrow> string list \<Rightarrow> exn + string list" where
  "section_loop [] md_lines = Inr md_lines"
| "section_loop (section # rest) md_lines =
     (case section_step section md_lines of
        Inl e \<Rightarrow> Inl e
      | Inr md_lines' \<Rightarrow> section_loop rest md_lines')"

text \<open>
  The function takes the effects so far and returns them extended: the only effect is the
  record logged when the \<open>try\<close> block fails.
\<close>

definition generate_markdown ::
  "string \<Rightarrow> row list \<Rightarrow> effect list \<Rightarrow> (exn + string) \<times> effect list" where
  "generate_markdown doc_name sections_content fx =
     (case section_loop sections_content [''# '' @ doc_name, ''''] of
        Inr md_lines \<Rightarrow> (Inr (strip (join ''\<newline>'' md_lines)), fx)
      | Inl e \<Rightarrow>
          (Inl (Exception In_generate_markdown e),
           fx @ [Log ERROR (Error_in_generate_markdown e)]))"

section \<open>The section store\<close>

text \<open>
  The tables \<open>document\<close> and \<open>section\<close> as the queries read them. A \<open>path\<close> is an
  \<open>ltree\<close> value, the list of its labels; the driver hands it to Python as text and the
  second query reads it back, which the model leaves out. \<open>content\<close> may be \<open>NULL\<close>.
\<close>

record document =
  id_doc :: uuid
  spec :: string
  version :: string
  release :: int
  toc :: string
  extracted_at :: string

record section_row =
  document_id :: uuid
  heading :: string
  path :: ltree
  level :: int
  content :: "string option"

text \<open>
  A connection gives access to the two tables; \<open>outage\<close> says which calls fail in the
  driver or the server, and with what exception. \<open>lc_ctype\<close> is the lower-case mapping of
  the database's locale, which \<open>ILIKE\<close> folds with and the sources do not fix.
\<close>

record db_conn =
  document_table :: "document list"
  section_table :: "section_row list"
  outage :: "db_call \<Rightarrow> exn option"
  lc_ctype :: "char \<Rightarrow> char"

subsection \<open>ILIKE\<close>

text \<open>
  PostgreSQL's \<open>ILIKE\<close> folds both operands to lower case with the mapping of the
  database's locale and matches with \<open>LIKE\<close>: in the pattern \<open>%\<close> stands for any sequence
  of characters, \<open>_\<close> for any one character, and a backslash makes the character after it
  stand for itself. A pattern that ends in a lone backslash is an error.
  \<open>lower\<close> is the mapping of the C locale, which folds the letters A to Z only; a UTF-8
  locale folds the accented capitals as well.
\<close>

definition lower :: "char \<Rightarrow> char" where
  "lower c =
     (if CHR ''A'' \<le> c \<and> c \<le> CHR ''Z'' then char_of (of_char c + (32::nat)) else c)"

datatype like_token = Lit char | AnyChar | AnySeq

fun like_parse :: "string \<Rightarrow> like_token list option" where
  "like_parse [] = Some []"
| "like_parse [c] =
     (if c = CHR 0x5C then None
      else if c = CHR ''%'' then Some [AnySeq]
      else if c = CHR ''_'' then Some [AnyChar]
      else Some [Lit c])"
| "like_parse (c # d # cs) =
     (if c = CHR 0x5C then map_option ((#) (Lit d)) (like_parse cs)
      else if c = CHR ''%'' then map_option ((#) AnySeq) (like_parse (d # cs))
      else if c = CHR ''_'' then map_option ((#) AnyChar) (like_parse (d # cs))
      else map_option ((#) (Lit c)) (like_parse (d # cs)))"

fun like_match :: "like_token list \<Rightarrow> string \<Rightarrow> bool" where
  "like_match [] s = (s = [])"
| "like_match (Lit c # ts) [] = False"
| "like_match (Lit c # ts) (x # xs) = (x = c \<and> like_match ts xs)"
| "like_match (AnyChar # ts) [] = False"
| "like_match (AnyChar # ts) (x # xs) = like_match ts xs"
| "like_match (AnySeq # ts) [] = like_match ts []"
| "like_match (AnySeq # ts) (x # xs) =
     (like_match ts (x # xs) \<or> like_match (AnySeq # ts) xs)"

definition like :: "string \<Rightarrow> string \<Rightarrow> bool option" where
  "like s pattern = map_option (\<lambda>ts. like_match ts s) (like_parse pattern)"

definition ilike :: "(char \<Rightarrow> char) \<Rightarrow> string \<Rightarrow> string \<Rightarrow> bool option" where
  "ilike lc s pattern = like (map lc s) (map lc pattern)"

subsection \<open>ltree\<close>

text \<open>
  \<open>a <@ b\<close>: \<open>a\<close> is \<open>b\<close> or a descendant of \<open>b\<close>, that is the labels of \<open>b\<close> begin the
  labels of \<open>a\<close>. \<open>ORDER BY path\<close> compares label by label, each label byte by byte, the
  shorter first where one begins the other: the lexicographic order of
  \<^typ>\<open>string list\<close>.
\<close>

definition is_descendant_or_self :: "ltree \<Rightarrow> ltree \<Rightarrow> bool" where
  "is_descendant_or_self candidate ancestor = prefix ancestor candidate"

subsection \<open>The two queries\<close>

text \<open>
  \<open>path_fetch_query\<close>: the rows of \<open>section\<close> of the document whose heading is
  \<open>ILIKE pattern || ' %'\<close> for some element of the array. The query asks for no order; the
  model keeps the order of the table.
\<close>

definition heading_matches :: "(char \<Rightarrow> char) \<Rightarrow> string \<Rightarrow> string \<Rightarrow> bool" where
  "heading_matches lc h pattern = (ilike lc h (pattern @ '' %'') = Some True)"

definition matched_sections ::
  "(char \<Rightarrow> char) \<Rightarrow> section_row list \<Rightarrow> uuid \<Rightarrow> string list \<Rightarrow> section_row list" where
  "matched_sections lc tbl d patterns =
     filter (\<lambda>s. document_id s = d \<and> list_ex (heading_matches lc (heading s)) patterns) tbl"

record path_row =
  row_heading :: string
  row_path :: ltree

definition path_fetch_query ::
  "(char \<Rightarrow> char) \<Rightarrow> section_row list \<Rightarrow> uuid \<Rightarrow> string list \<Rightarrow> path_row list" where
  "path_fetch_query lc tbl d patterns =
     map (\<lambda>s. \<lparr>row_heading = heading s, row_path = path s\<rparr>)
       (matched_sections lc tbl d patterns)"

text \<open>
  \<open>content_fetch_query\<close>: the rows of the document with \<open>path <@ ANY (paths)\<close>, ordered
  by path, each returned as the dictionary of \<open>heading\<close>, \<open>level\<close> and \<open>content\<close>. Rows of
  equal path, which the server may return in any order, stay in the order of the table.
\<close>

definition subtree_sections :: "section_row list \<Rightarrow> uuid \<Rightarrow> ltree list \<Rightarrow> section_row list" where
  "subtree_sections tbl d paths =
     sort_key path
       (filter (\<lambda>s. document_id s = d \<and> list_ex (is_descendant_or_self (path s)) paths) tbl)"

definition content_row :: "section_row \<Rightarrow> row" where
  "content_row s =
     [''heading'' \<mapsto> PStr (heading s),
      ''level'' \<mapsto> PInt (level s),
      ''content'' \<mapsto> (case content s of None \<Rightarrow> PNone | Some c \<Rightarrow> PStr c)]"

definition content_fetch_query :: "section_row list \<Rightarrow> uuid \<Rightarrow> ltree list \<Rightarrow> row list" where
  "content_fetch_query tbl d paths = map content_row (subtree_sections tbl d paths)"

section \<open>get\_sections\_content\<close>

text \<open>
  Modelled from the spec: \<open>get_document_by_id\<close> (\<open>src/db/document.py\<close> is not among the
  sources). The spec gives it as \<open>resolveDocument(id) -> Document | NotFound\<close>, the lookup
  of the document of that id.
\<close>

definition get_document_by_id :: "db_conn \<Rightarrow> uuid \<Rightarrow> document option" where
  "get_document_by_id db d = find (\<lambda>doc. id_doc doc = d) (document_table db)"

definition is_str :: "pyval \<Rightarrow> bool" where
  "is_str v = (case v of PStr _ \<Rightarrow> True | _ \<Rightarrow> False)"

definition str_of :: "pyval \<Rightarrow> string" where
  "str_of v = (case v of PStr s \<Rightarrow> s | _ \<Rightarrow> [])"

text \<open>
  The \<open>try\<close> block. \<open>patterns\<close> are the strings of \<open>section_list\<close>, as the driver sends
  them. Every call to the store is recorded before its outcome is known.
\<close>

definition try_block ::
  "db_conn \<Rightarrow> uuid \<Rightarrow> pyval list \<Rightarrow> effect list \<Rightarrow> (exn + string) \<times> effect list" where
  "try_block db doc_id section_list fx =
     (case outage db OpenCursor of Some e \<Rightarrow> (Inl e, fx) | None \<Rightarrow>
      let fx1 = fx @ [Query (GetDocument doc_id)] in
      case outage db (GetDocument doc_id) of Some e \<Rightarrow> (Inl e, fx1) | None \<Rightarrow>
      case get_document_by_id db doc_id of
        None \<Rightarrow> (Inl (ValueError (DocumentNotFound doc_id)), fx1)
      | Some document \<Rightarrow>
      let patterns = map str_of section_list;
          fx2 = fx1 @ [Query (PathFetch (id_doc document) patterns)] in
      case outage db (PathFetch (id_doc document) patterns) of Some e \<Rightarrow> (Inl e, fx2) | None \<Rightarrow>
      let sections =
            path_fetch_query (lc_ctype db) (section_table db) (id_doc document) patterns in
      if sections = []
      then (Inl (ValueError (NoSectionsFound (spec document) (version document) section_list)), fx2)
      else
      let fx3 = fx2 @ [Log INFO
                  (Found_matching_sections (length sections) (spec document) (version document))];
          sections_path = map row_path sections;
          sections_heading = map row_heading sections;
          fx4 = fx3 @ [Log DEBUG
                  (Matched_sections (spec document) (version document) sections_heading)];
          fx5 = fx4 @ [Query (ContentFetch (id_doc document) sections_path)] in
      case outage db (ContentFetch (id_doc document) sections_path) of
        Some e \<Rightarrow> (Inl e, fx5)
      | None \<Rightarrow>
      let sections_content =
            content_fetch_query (section_table db) (id_doc document) sections_path in
      if sections_content = []
      then (Inl (ValueError
                  (HierarchicalSearchFailed (spec document) (version document) section_list)), fx5)
      else
      let fx6 = fx5 @ [Log DEBUG
                  (Retrieved_sections (length sections_content) (spec document)
                     (version document) sections_path)] in
      generate_markdown (spec document) sections_content fx6)"

text \<open>
  \<open>not doc_id\<close> holds of \<open>None\<close> only (a UUID is always true); \<open>not section_list\<close> holds of
  \<open>None\<close> and of the empty list. The three checks come before the \<open>try\<close>, so their
  \<open>ValueError\<close> leaves the function as it is; whatever the \<open>try\<close> block raises is logged
  and raised again as an \<open>Exception\<close> from it.
\<close>

definition get_sections_content ::
  "db_conn \<Rightarrow> uuid option \<Rightarrow> pyval list option \<Rightarrow> effect list
     \<Rightarrow> (exn + string) \<times> effect list" where
  "get_sections_content db doc_id section_list fx =
     (case doc_id of None \<Rightarrow> (Inl (ValueError MissingDocId), fx) | Some d \<Rightarrow>
      case section_list of None \<Rightarrow> (Inl (ValueError MissingSectionList), fx) | Some sl \<Rightarrow>
      if sl = [] then (Inl (ValueError MissingSectionList), fx)
      else if \<not> list_all is_str sl then (Inl (ValueError NonStringIdentifier), fx)
      else
        (case try_block db d sl fx of
           (Inr markdown, fx') \<Rightarrow> (Inr markdown, fx')
         | (Inl e, fx') \<Rightarrow>
             (Inl (Exception In_fetch_sections_content e),
              fx' @ [Log ERROR (Error_in_fetch_sections_content e)])))"

text \<open>
  The handlers of the route \<open>get_latest_graph_by_procedure_id_and_entity\<close> around the
  call: an \<open>HTTPException\<close> passes, any other exception is logged and becomes the
  response 500.
\<close>

definition route_except :: "exn \<Rightarrow> exn" where
  "route_except e =
     (if class_of e = HTTPException_class then e
      else HTTPException 500 ''Internal server error while fetching graph'')"

section \<open>Notions used in the statements\<close>

text \<open>The characters that \<open>LIKE\<close> does not read as themselves.\<close>

definition like_meta :: "char \<Rightarrow> bool" where
  "like_meta c = (c = CHR ''%'' \<or> c = CHR ''_'' \<or> c = CHR 0x5C)"

text \<open>
  A row whose three fields have the types the renderer's signature announces, and the
  lines such a row adds: the heading line and an empty line, then the content as it is
  stored and an empty line when the content is more than white space.
\<close>

definition is_int :: "pyval \<Rightarrow> bool" where
  "is_int v = (case v of PInt _ \<Rightarrow> True | _ \<Rightarrow> False)"

definition has_type :: "(pyval \<Rightarrow> bool) \<Rightarrow> pyval option \<Rightarrow> bool" where
  "has_type t v = (case v of None \<Rightarrow> False | Some x \<Rightarrow> t x)"

definition well_typed :: "row \<Rightarrow> bool" where
  "well_typed r =
     (has_type is_str (r ''heading'') \<and> has_type is_int (r ''level'')
      \<and> has_type is_str (r ''content''))"

definition section_block :: "row \<Rightarrow> string list" where
  "section_block r =
     (case r ''heading'' of
        Some (PStr h) \<Rightarrow>
          (case r ''level'' of
             Some (PInt n) \<Rightarrow>
               (case r ''content'' of
                  Some (PStr c) \<Rightarrow>
                    [replicate (nat n) CHR ''#'' @ '' '' @ h, '''']
                      @ (if strip c = [] then [] else [c, ''''])
                | _ \<Rightarrow> [])
           | _ \<Rightarrow> [])
      | _ \<Rightarrow> [])"

text \<open>
  The store of the end-to-end scenario: one document, three sections, in a database of
  the C locale.
\<close>

definition scenario_document :: document where
  "scenario_document =
     \<lparr>id_doc = ''d1'', spec = ''38.331'', version = ''17.0.0'', release = 17,
      toc = '''', extracted_at = ''''\<rparr>"

definition scenario_sections :: "section_row list" where
  "scenario_sections =
     [\<lparr>document_id = ''d1'', heading = ''5.2 Random Access'', path = [''A''],
       level = 1, content = Some ''Intro text''\<rparr>,
      \<lparr>document_id = ''d1'', heading = ''5.2.1 Contention'', path = [''A'', ''1''],
       level = 2, content = Some ''Detail''\<rparr>,
      \<lparr>document_id = ''d1'', heading = ''5.3 Other'', path = [''B''],
       level = 1, content = Some ''Unrelated''\<rparr>]"

definition scenario_db :: db_conn where
  "scenario_db =
     \<lparr>document_table = [scenario_document], section_table = scenario_sections,
      outage = (\<lambda>_. None), lc_ctype = lower\<rparr>"

text \<open>The same store when the call that looks the document up fails in the driver.\<close>

definition failing_db :: db_conn where
  "failing_db =
     scenario_db\<lparr>outage :=
       (\<lambda>c. if c = GetDocument ''d1'' then Some (StoreError ''connection lost'') else None)\<rparr>"

text \<open>A store in which the content of a subsection is \<open>NULL\<close>.\<close>

definition null_content_db :: db_conn where
  "null_content_db =
     scenario_db\<lparr>section_table :=
       [\<lparr>document_id = ''d1'', heading = ''5.2 Random Access'', path = [''A''],
         level = 1, content = Some ''Intro text''\<rparr>,
        \<lparr>document_id = ''d1'', heading = ''5.2.1 Contention'', path = [''A'', ''1''],
         level = 2, content = None\<rparr>]\<rparr>"

text \<open>Rows for the renderer: a content with spaces around it, and a content of \<open>None\<close>.\<close>

definition padded_rows :: "row list" where
  "padded_rows =
     [[''heading'' \<mapsto> PStr ''A'', ''level'' \<mapsto> PInt 1, ''content'' \<mapsto> PStr '' x ''],
      [''heading'' \<mapsto> PStr ''B'', ''level'' \<mapsto> PInt 1, ''content'' \<mapsto> PStr '''']]"

definition none_rows :: "row list" where
  "none_rows =
     [[''heading'' \<mapsto> PStr ''A'', ''level'' \<mapsto> PInt 1, ''content'' \<mapsto> PNone],
      [''heading'' \<mapsto> PStr ''B'', ''level'' \<mapsto> PInt 1, ''content'' \<mapsto> PStr ''text'']]"

section \<open>Pattern matching\<close>

lemma lower_code:
  "(of_char (lower c) :: nat) =
     (if 65 \<le> (of_char c :: nat) \<and> (of_char c :: nat) \<le> 90 then of_char c + 32 else of_char c)"
  by (simp add: lower_def less_eq_char_def)

lemma char_code_eq: "c = d \<longleftrightarrow> (of_char c :: nat) = of_char d"
  by (simp only: of_char_eq_iff)

lemma like_meta_code:
  "like_meta c \<longleftrightarrow>
     (of_char c :: nat) = 37 \<or> (of_char c :: nat) = 95 \<or> (of_char c :: nat) = 92"
  unfolding like_meta_def
  by (simp add: char_code_eq[of c "CHR ''%''"] char_code_eq[of c "CHR ''_''"]
        char_code_eq[of c "CHR 0x5C"])

lemma lower_meta [simp]: "like_meta (lower c) = like_meta c"
  by (simp add: like_meta_code lower_code)

lemma lower_fixed [simp]: "lower CHR '' '' = CHR '' ''" "lower CHR ''%'' = CHR ''%''"
  by (simp_all add: lower_def less_eq_char_def)

lemma not_meta_space [simp]: "\<not> like_meta CHR '' ''"
  by (simp add: like_meta_def)

lemma like_parse_plain:
  "\<not> like_meta c \<Longrightarrow> like_parse (c # cs) = map_option ((#) (Lit c)) (like_parse cs)"
  by (cases cs) (auto simp: like_meta_def)

lemma like_parse_plain_append:
  "\<forall>c\<in>set p. \<not> like_meta c \<Longrightarrow> like_parse q = Some ts
     \<Longrightarrow> like_parse (p @ q) = Some (map Lit p @ ts)"
  by (induction p) (simp_all add: like_parse_plain)

text \<open>The pattern the query builds never ends in a lone backslash: \<open>ILIKE\<close> cannot fail.\<close>

lemma like_parse_total: "like_parse (p @ '' %'') \<noteq> None"
  by (induction p rule: like_parse.induct) auto

lemma like_match_AnySeq [simp]: "like_match [AnySeq] s"
  by (induction s) auto

lemma like_match_lits:
  "like_match (map Lit p @ ts) s \<longleftrightarrow> (\<exists>r. s = p @ r \<and> like_match ts r)"
proof (induction p arbitrary: s)
  case Nil
  show ?case by simp
next
  case (Cons c p)
  show ?case by (cases s) (auto simp: Cons.IH)
qed

lemma like_match_prefix: "like_match (map Lit q @ [AnySeq]) s \<longleftrightarrow> prefix q s"
  by (auto simp: like_match_lits prefix_def)

lemma heading_matches_plain:
  assumes "lc CHR '' '' = CHR '' ''" "lc CHR ''%'' = CHR ''%''"
    "\<forall>c\<in>set p. \<not> like_meta (lc c)"
  shows "heading_matches lc h p \<longleftrightarrow> prefix (map lc (p @ '' '')) (map lc h)"
proof -
  have "\<forall>c\<in>set (map lc p @ '' ''). \<not> like_meta c"
    using assms(3) by simp
  moreover have "like_parse ''%'' = Some [AnySeq]"
    by simp
  ultimately have "like_parse ((map lc p @ '' '') @ ''%'') =
      Some (map Lit (map lc p @ '' '') @ [AnySeq])"
    by (rule like_parse_plain_append)
  then have "ilike lc h (p @ '' %'') =
      Some (like_match (map Lit (map lc p @ '' '') @ [AnySeq]) (map lc h))"
    using assms(1,2) by (simp add: ilike_def like_def)
  then show ?thesis
    by (simp only: heading_matches_def like_match_prefix option.inject) (simp add: assms(1))
qed

text \<open>
  What holds of one pattern, whatever else is in the list: a pattern without \<open>%\<close>, \<open>_\<close> and
  backslash selects the headings that begin, letter case aside, with it and a space.
\<close>

lemma heading_matches_plain_C_locale:
  assumes "\<forall>c\<in>set p. \<not> like_meta c"
  shows "heading_matches lower h p \<longleftrightarrow> prefix (map lower (p @ '' '')) (map lower h)"
  using assms by (intro heading_matches_plain) simp_all


text \<open>
  C1, on the code. The three examples of the claim hold: \<open>5.2\<close> selects the heading
  \<open>5.2 Random Access\<close> and not \<open>5.20 Something\<close>, and \<open>ABC\<close> selects \<open>abc Title\<close>. But the
  elements of the list reach \<open>ILIKE\<close> unescaped: \<open>5_2\<close> selects the heading
  \<open>5.2 Random Access\<close>, which does not begin with \<open>5_2\<close> and a space, and \<open>%\<close> selects
  every heading of the document that has a space in it.
\<close>

theorem unescaped_pattern_selects_other_headings:
  "heading_matches lower ''5.2 Random Access'' ''5.2''
   \<and> \<not> heading_matches lower ''5.20 Something'' ''5.2''
   \<and> heading_matches lower ''abc Title'' ''ABC''
   \<and> path_fetch_query lower scenario_sections ''d1'' [''5_2''] =
      [\<lparr>row_heading = ''5.2 Random Access'', row_path = [''A'']\<rparr>]
   \<and> \<not> prefix (map lower (''5_2'' @ '' '')) (map lower ''5.2 Random Access'')
   \<and> map row_heading (path_fetch_query lower scenario_sections ''d1'' [''%'']) =
      [''5.2 Random Access'', ''5.2.1 Contention'', ''5.3 Other'']
   \<and> \<not> prefix (map lower (''%'' @ '' '')) (map lower ''5.3 Other'')"
  by code_simp

section \<open>Subtree expansion\<close>

lemma strict_prefix_less:
  fixes a b :: "('a::linorder) list"
  shows "strict_prefix a b \<Longrightarrow> a < b"
proof (induction a arbitrary: b)
  case Nil
  then show ?case by (cases b) auto
next
  case (Cons x a)
  then show ?case by (cases b) auto
qed

lemma prefix_between:
  fixes a b c :: "('a::linorder) list"
  shows "a \<le> b \<Longrightarrow> b \<le> c \<Longrightarrow> prefix m a \<Longrightarrow> prefix m c \<Longrightarrow> prefix m b"
proof (induction m arbitrary: a b c)
  case Nil
  show ?case by simp
next
  case (Cons x m)
  from Cons.prems(3) obtain a' where a: "a = x # a'" "prefix m a'"
    by (cases a) simp_all
  from Cons.prems(4) obtain c' where c: "c = x # c'" "prefix m c'"
    by (cases c) simp_all
  from Cons.prems(1) a(1) obtain y b' where b: "b = y # b'"
    by (cases b) simp_all
  from Cons.prems(1,2) have "x = y \<and> a' \<le> b' \<and> b' \<le> c'"
    unfolding a(1) b c(1) by auto
  with Cons.IH[of a' b' c'] a(2) c(2) show ?case unfolding b by simp
qed

lemma subtree_sections_set:
  "set (subtree_sections tbl d M) =
     {s \<in> set tbl. document_id s = d \<and> (\<exists>m\<in>set M. is_descendant_or_self (path s) m)}"
  by (auto simp: subtree_sections_def list_ex_iff)

lemma subtree_sections_mset:
  "mset (subtree_sections tbl d M) =
     filter_mset (\<lambda>s. document_id s = d \<and> (\<exists>m\<in>set M. is_descendant_or_self (path s) m)) (mset tbl)"
  by (simp add: subtree_sections_def list_ex_iff)

lemma distinct_map_sort_key: "distinct (map f (sort_key f xs)) = distinct (map f xs)"
proof -
  have "mset (map f (sort_key f xs)) = mset (map f xs)" by simp
  then show ?thesis by (rule mset_eq_imp_distinct_iff)
qed

lemma subtree_sections_distinct:
  assumes "distinct (map path (filter (\<lambda>s. document_id s = d) tbl))"
  shows "distinct (map path (subtree_sections tbl d M))"
proof -
  let ?Q = "\<lambda>s. list_ex (is_descendant_or_self (path s)) M"
  have eq: "filter (\<lambda>s. document_id s = d \<and> ?Q s) tbl =
        filter ?Q (filter (\<lambda>s. document_id s = d) tbl)"
    by (simp add: conj_commute)
  have "distinct (map path (filter ?Q (filter (\<lambda>s. document_id s = d) tbl)))"
    using assms by (rule distinct_map_filter)
  then show ?thesis
    unfolding subtree_sections_def distinct_map_sort_key eq .
qed

lemma subtree_sections_sorted: "sorted (map path (subtree_sections tbl d M))"
  by (simp add: subtree_sections_def)

lemma sorted_parent_first:
  fixes ps :: "('a::linorder) list list"
  assumes "sorted ps" "i < length ps" "j < length ps" "strict_prefix (ps ! i) (ps ! j)"
  shows "i < j"
proof (rule ccontr)
  assume "\<not> i < j"
  then have "j \<le> i" by simp
  with assms(1,2) have "ps ! j \<le> ps ! i" by (simp add: sorted_nth_mono)
  moreover from assms(4) have "ps ! i < ps ! j" by (rule strict_prefix_less)
  ultimately show False by simp
qed

lemma sorted_subtree_contiguous:
  fixes ps :: "('a::linorder) list list"
  assumes "sorted ps" "i \<le> j" "j \<le> k" "k < length ps" "prefix m (ps ! i)" "prefix m (ps ! k)"
  shows "prefix m (ps ! j)"
proof -
  have "ps ! i \<le> ps ! j" using assms by (simp add: sorted_nth_mono)
  moreover have "ps ! j \<le> ps ! k" using assms by (simp add: sorted_nth_mono)
  ultimately show ?thesis using assms(5,6) by (rule prefix_between)
qed

text \<open>
  C2. The second query selects exactly the sections of the document whose path is a
  matched path or a descendant of one. Each stored row that qualifies is returned once,
  however many matched paths it lies under: the rows returned are, as a multiset, the
  qualifying rows of the table, so where the paths of the document are distinct no path
  comes twice.
\<close>

theorem subtree_expansion_complete:
  "set (subtree_sections tbl d M) =
      {s \<in> set tbl. document_id s = d \<and> (\<exists>m\<in>set M. is_descendant_or_self (path s) m)}
   \<and> mset (subtree_sections tbl d M) =
      filter_mset (\<lambda>s. document_id s = d \<and> (\<exists>m\<in>set M. is_descendant_or_self (path s) m))
        (mset tbl)
   \<and> (distinct (map path (filter (\<lambda>s. document_id s = d) tbl))
        \<longrightarrow> distinct (map path (subtree_sections tbl d M)))
   \<and> content_fetch_query tbl d M = map content_row (subtree_sections tbl d M)"
  using subtree_sections_set[of tbl d M] subtree_sections_mset[of tbl d M]
    subtree_sections_distinct[of d tbl M]
  by (simp add: content_fetch_query_def)

theorem subtree_expansion_complete_witness:
  "distinct (map path (filter (\<lambda>s. document_id s = ''d1'') scenario_sections))
   \<and> distinct (map path (subtree_sections scenario_sections ''d1'' [[''A''], [''A'', ''1'']]))
   \<and> map path (subtree_sections scenario_sections ''d1'' [[''A''], [''A'', ''1'']]) =
      [[''A''], [''A'', ''1'']]"
proof -
  have h: "distinct (map path (filter (\<lambda>s. document_id s = ''d1'') scenario_sections))"
    by code_simp
  have e: "map path (subtree_sections scenario_sections ''d1'' [[''A''], [''A'', ''1'']]) =
      [[''A''], [''A'', ''1'']]"
    by code_simp
  show ?thesis
    using h e subtree_expansion_complete[of scenario_sections "''d1''" "[[''A''], [''A'', ''1'']]"]
    by simp
qed

text \<open>
  C3. The sections come out ordered by path: the paths are non-decreasing, a section
  whose path properly begins the path of another comes before it, and the sections under
  one path are contiguous (what lies between two of them lies under that path too).
\<close>

theorem document_order:
  "sorted (map path (subtree_sections tbl d M))
   \<and> (\<forall>i j. i < length (subtree_sections tbl d M) \<and> j < length (subtree_sections tbl d M)
          \<and> strict_prefix (path (subtree_sections tbl d M ! i)) (path (subtree_sections tbl d M ! j))
        \<longrightarrow> i < j)
   \<and> (\<forall>i j k m. i \<le> j \<and> j \<le> k \<and> k < length (subtree_sections tbl d M)
          \<and> prefix m (path (subtree_sections tbl d M ! i))
          \<and> prefix m (path (subtree_sections tbl d M ! k))
        \<longrightarrow> prefix m (path (subtree_sections tbl d M ! j)))"
proof -
  let ?out = "subtree_sections tbl d M"
  have s: "sorted (map path ?out)"
    by (rule subtree_sections_sorted)
  have p: "i < j"
    if "i < length ?out" "j < length ?out" "strict_prefix (path (?out ! i)) (path (?out ! j))"
    for i j
    using sorted_parent_first[OF s, of i j] that by simp
  have c: "prefix m (path (?out ! j))"
    if "i \<le> j" "j \<le> k" "k < length ?out" "prefix m (path (?out ! i))"
      "prefix m (path (?out ! k))"
    for i j k m
    using sorted_subtree_contiguous[OF s, of i j k m] that by simp
  from s p c show ?thesis by blast
qed

theorem document_order_witness:
  "map path (subtree_sections scenario_sections ''d1'' [[''B''], [''A'']]) =
      [[''A''], [''A'', ''1''], [''B'']]
   \<and> (0::nat) < length (subtree_sections scenario_sections ''d1'' [[''B''], [''A'']])
   \<and> (1::nat) < length (subtree_sections scenario_sections ''d1'' [[''B''], [''A'']])
   \<and> strict_prefix (path (subtree_sections scenario_sections ''d1'' [[''B''], [''A'']] ! 0))
        (path (subtree_sections scenario_sections ''d1'' [[''B''], [''A'']] ! 1))
   \<and> sorted (map path (subtree_sections scenario_sections ''d1'' [[''B''], [''A'']]))
   \<and> (0::nat) < 1"
proof -
  have e: "map path (subtree_sections scenario_sections ''d1'' [[''B''], [''A'']]) =
      [[''A''], [''A'', ''1''], [''B'']]"
    by code_simp
  have h: "(0::nat) < length (subtree_sections scenario_sections ''d1'' [[''B''], [''A'']])
     \<and> (1::nat) < length (subtree_sections scenario_sections ''d1'' [[''B''], [''A'']])
     \<and> strict_prefix (path (subtree_sections scenario_sections ''d1'' [[''B''], [''A'']] ! 0))
          (path (subtree_sections scenario_sections ''d1'' [[''B''], [''A'']] ! 1))"
    by code_simp
  from document_order[of scenario_sections "''d1''" "[[''B''], [''A'']]"]
  have s: "sorted (map path (subtree_sections scenario_sections ''d1'' [[''B''], [''A'']]))"
    and p: "\<forall>i j. i < length (subtree_sections scenario_sections ''d1'' [[''B''], [''A'']])
        \<and> j < length (subtree_sections scenario_sections ''d1'' [[''B''], [''A'']])
        \<and> strict_prefix (path (subtree_sections scenario_sections ''d1'' [[''B''], [''A'']] ! i))
             (path (subtree_sections scenario_sections ''d1'' [[''B''], [''A'']] ! j))
      \<longrightarrow> i < j"
    by blast+
  from p h have "(0::nat) < 1"
    by blast
  with e h s show ?thesis
    by blast
qed




section \<open>Rendering\<close>

lemma section_step_well_typed:
  assumes "r ''heading'' = Some (PStr h)" "r ''level'' = Some (PInt n)"
    "r ''content'' = Some (PStr c)"
  shows "section_step r md_lines =
     Inr (md_lines @ [replicate (nat n) CHR ''#'' @ '' '' @ h, '''']
            @ (if strip c = [] then [] else [c, '''']))"
  using assms by (simp add: section_step_def getitem_def md_heading_of_def)

lemma well_typed_fields:
  "well_typed r \<Longrightarrow>
     \<exists>h n c. r ''heading'' = Some (PStr h) \<and> r ''level'' = Some (PInt n)
       \<and> r ''content'' = Some (PStr c)"
  by (auto simp: well_typed_def has_type_def is_str_def is_int_def
        split: option.splits pyval.splits)

lemma section_step_block:
  assumes "well_typed r"
  shows "section_step r md_lines = Inr (md_lines @ section_block r)"
proof -
  from well_typed_fields[OF assms] obtain h n c where
    f: "r ''heading'' = Some (PStr h)" "r ''level'' = Some (PInt n)"
      "r ''content'' = Some (PStr c)"
    by blast
  then have "section_block r =
      [replicate (nat n) CHR ''#'' @ '' '' @ h, ''''] @ (if strip c = [] then [] else [c, ''''])"
    by (simp add: section_block_def)
  with section_step_well_typed[OF f] show ?thesis by simp
qed

lemma section_loop_blocks:
  "list_all well_typed rows \<Longrightarrow>
     section_loop rows md_lines = Inr (md_lines @ concat (map section_block rows))"
  by (induction rows arbitrary: md_lines) (simp_all add: section_step_block)

lemma section_step_content_str:
  "section_step r md_lines = Inr x \<Longrightarrow> \<exists>c. r ''content'' = Some (PStr c)"
  by (auto simp: section_step_def getitem_def split: option.splits sum.splits pyval.splits)

lemma section_loop_fails:
  "\<exists>r\<in>set rows. \<forall>c. r ''content'' \<noteq> Some (PStr c) \<Longrightarrow> \<exists>e. section_loop rows md_lines = Inl e"
proof (induction rows arbitrary: md_lines)
  case Nil
  then show ?case by simp
next
  case (Cons r rows)
  show ?case
  proof (cases "section_step r md_lines")
    case (Inl e)
    then show ?thesis by simp
  next
    case (Inr x)
    then have "\<exists>c. r ''content'' = Some (PStr c)"
      by (rule section_step_content_str)
    with Cons.prems have "\<exists>r\<in>set rows. \<forall>c. r ''content'' \<noteq> Some (PStr c)"
      by auto
    then have "\<exists>e. section_loop rows x = Inl e"
      by (rule Cons.IH)
    with Inr show ?thesis by simp
  qed
qed

text \<open>
  C6, as amended. A section whose heading and content are strings and whose level is an
  integer adds its heading line and one empty line and, when its content is more than
  white space, the content as it is stored (not trimmed) and one more empty line; a
  content that is empty or white space adds nothing. When every row is of that kind the
  result is the title line, an empty line and these blocks, joined by line feeds and
  trimmed at the two ends of the whole text only.
\<close>

theorem content_emitted_as_stored:
  "(r ''heading'' = Some (PStr h) \<and> r ''level'' = Some (PInt n) \<and> r ''content'' = Some (PStr c)
      \<longrightarrow> section_step r md_lines =
            Inr (md_lines @ [replicate (nat n) CHR ''#'' @ '' '' @ h, '''']
                   @ (if strip c = [] then [] else [c, ''''])))
   \<and> (list_all well_typed rows
      \<longrightarrow> generate_markdown doc_name rows fx =
            (Inr (strip (join ''\<newline>''
                    ([''# '' @ doc_name, ''''] @ concat (map section_block rows)))), fx))"
  using section_step_well_typed[of r h n c md_lines]
    section_loop_blocks[of rows "[''# '' @ doc_name, '''']"]
  by (simp add: generate_markdown_def)

theorem content_emitted_as_stored_witness:
  "list_all well_typed padded_rows
   \<and> concat (map section_block padded_rows) = [''# A'', '''', '' x '', '''', ''# B'', '''']
   \<and> generate_markdown ''T'' padded_rows [] =
      (Inr (strip (join ''\<newline>''
              ([''# '' @ ''T'', ''''] @ concat (map section_block padded_rows)))), [])"
proof -
  have h: "list_all well_typed padded_rows"
    by code_simp
  have b: "concat (map section_block padded_rows) = [''# A'', '''', '' x '', '''', ''# B'', '''']"
    by code_simp
  from content_emitted_as_stored[of _ _ _ _ _ padded_rows "''T''" "[]"] h
  have "generate_markdown ''T'' padded_rows [] =
      (Inr (strip (join ''\<newline>''
              ([''# '' @ ''T'', ''''] @ concat (map section_block padded_rows)))), [])"
    by blast
  with h b show ?thesis by blast
qed

text \<open>
  C6 as stated fails: the content \<open>" x "\<close> is emitted with its spaces, not as \<open>"x"\<close>.
\<close>

theorem content_not_trimmed_counterexample:
  "generate_markdown ''T'' padded_rows [] =
      (Inr ''# T\<newline>\<newline># A\<newline>\<newline> x \<newline>\<newline># B'', [])
   \<and> section_step (hd padded_rows) [] = Inr [''# A'', '''', '' x '', '''']
   \<and> strip '' x '' = ''x''"
  by code_simp

text \<open>
  C10. A row whose content is not a string makes the renderer fail: for every list of
  rows that holds such a row the result is the wrapping exception, none of the rows is
  rendered, and the retrieval over a store with a \<open>NULL\<close> content fails with it.
\<close>

theorem non_string_content_fails:
  "((\<exists>r\<in>set rows. \<forall>c. r ''content'' \<noteq> Some (PStr c))
      \<longrightarrow> (\<exists>e. fst (generate_markdown doc_name rows fx) = Inl (Exception In_generate_markdown e)))
   \<and> fst (generate_markdown ''T'' none_rows []) = Inl (Exception In_generate_markdown AttributeError)
   \<and> fst (get_sections_content null_content_db (Some ''d1'') (Some [PStr ''5.2'']) []) =
      Inl (Exception In_fetch_sections_content (Exception In_generate_markdown AttributeError))"
proof -
  have "\<exists>e. fst (generate_markdown doc_name rows fx) = Inl (Exception In_generate_markdown e)"
    if "\<exists>r\<in>set rows. \<forall>c. r ''content'' \<noteq> Some (PStr c)"
    using section_loop_fails[OF that, of "[''# '' @ doc_name, '''']"]
    by (auto simp: generate_markdown_def)
  moreover have "fst (generate_markdown ''T'' none_rows []) =
      Inl (Exception In_generate_markdown AttributeError)"
    by code_simp
  moreover have
    "fst (get_sections_content null_content_db (Some ''d1'') (Some [PStr ''5.2'']) []) =
      Inl (Exception In_fetch_sections_content (Exception In_generate_markdown AttributeError))"
    by code_simp
  ultimately show ?thesis by blast
qed

theorem non_string_content_fails_witness:
  "(\<exists>r\<in>set none_rows. r ''content'' = Some PNone)
   \<and> (\<exists>e. fst (generate_markdown ''T'' none_rows []) = Inl (Exception In_generate_markdown e))"
proof -
  have n: "\<exists>r\<in>set none_rows. r ''content'' = Some PNone"
    by (simp add: none_rows_def)
  from n obtain r where r: "r \<in> set none_rows" "r ''content'' = Some PNone"
    by blast
  from r(2) have "\<forall>c. r ''content'' \<noteq> Some (PStr c)"
    by simp
  with r(1) have h: "\<exists>r\<in>set none_rows. \<forall>c. r ''content'' \<noteq> Some (PStr c)"
    by blast
  from non_string_content_fails[of none_rows "''T''" "[]"] h
  have "\<exists>e. fst (generate_markdown ''T'' none_rows []) = Inl (Exception In_generate_markdown e)"
    by blast
  with n show ?thesis by (rule conjI)
qed

section \<open>The orchestrator\<close>

text \<open>
  C4. The end-to-end scenario: the pattern \<open>5.2\<close> on the store of three sections gives
  the title, section A and its subsection, and the content of section B is no part of the
  text.
\<close>

theorem end_to_end_scenario:
  "fst (get_sections_content scenario_db (Some ''d1'') (Some [PStr ''5.2'']) []) =
      Inr ''# 38.331\<newline>\<newline># 5.2 Random Access\<newline>\<newline>Intro text\<newline>\<newline>## 5.2.1 Contention\<newline>\<newline>Detail''
   \<and> \<not> sublist ''Unrelated''
        ''# 38.331\<newline>\<newline># 5.2 Random Access\<newline>\<newline>Intro text\<newline>\<newline>## 5.2.1 Contention\<newline>\<newline>Detail''"
  by code_simp

text \<open>
  On one state of the table the second query returns at least the matched sections: the
  error of the hierarchical search cannot be raised after a first query with rows.
\<close>

lemma expansion_nonempty:
  assumes "path_fetch_query lc tbl d patterns \<noteq> []"
  shows "content_fetch_query tbl d (map row_path (path_fetch_query lc tbl d patterns)) \<noteq> []"
proof -
  from assms obtain s where s: "s \<in> set (matched_sections lc tbl d patterns)"
    by (cases "matched_sections lc tbl d patterns") (auto simp: path_fetch_query_def)
  then have "s \<in> set tbl" "document_id s = d"
    by (auto simp: matched_sections_def)
  moreover from s have "path s \<in> set (map row_path (path_fetch_query lc tbl d patterns))"
    by (auto simp: path_fetch_query_def)
  ultimately have
    "s \<in> set (subtree_sections tbl d (map row_path (path_fetch_query lc tbl d patterns)))"
    unfolding subtree_sections_set by (auto simp: is_descendant_or_self_def)
  then show ?thesis
    by (auto simp: content_fetch_query_def)
qed

lemma try_block_not_found:
  assumes "outage db OpenCursor = None" "outage db (GetDocument d) = None"
    "get_document_by_id db d = None"
  shows "try_block db d sl fx =
     (Inl (ValueError (DocumentNotFound d)), fx @ [Query (GetDocument d)])"
  using assms by (simp add: try_block_def)

lemma try_block_no_match:
  assumes "outage db OpenCursor = None" "outage db (GetDocument d) = None"
    "get_document_by_id db d = Some doc"
    "outage db (PathFetch (id_doc doc) (map str_of sl)) = None"
    "matched_sections (lc_ctype db) (section_table db) (id_doc doc) (map str_of sl) = []"
  shows "try_block db d sl fx =
     (Inl (ValueError (NoSectionsFound (spec doc) (version doc) sl)),
      fx @ [Query (GetDocument d), Query (PathFetch (id_doc doc) (map str_of sl))])"
  using assms by (simp add: try_block_def path_fetch_query_def)

text \<open>
  Whatever the \<open>try\<close> block raises leaves the function as a plain \<open>Exception\<close> that
  carries it as its cause.
\<close>

lemma errors_of_try_block_wrapped:
  assumes "sl \<noteq> []" "list_all is_str sl"
    "get_sections_content db (Some d) (Some sl) fx = (Inl e, fx')"
  shows "\<exists>e0. e = Exception In_fetch_sections_content e0 \<and> cause e = Some e0
           \<and> class_of e = Exception_class \<and> fst (try_block db d sl fx) = Inl e0"
  using assms by (auto simp: get_sections_content_def split: prod.splits sum.splits)

text \<open>
  The checks of the arguments: a missing document id, a missing or empty list and a list
  with an element that is not a string each raise their \<open>ValueError\<close> with the effects
  unchanged, so no call has reached the store and nothing was logged.
\<close>

lemma invalid_arguments_raise_before_store:
  "get_sections_content db None section_list fx = (Inl (ValueError MissingDocId), fx)
   \<and> get_sections_content db (Some d) None fx = (Inl (ValueError MissingSectionList), fx)
   \<and> get_sections_content db (Some d) (Some []) fx = (Inl (ValueError MissingSectionList), fx)
   \<and> (sl \<noteq> [] \<and> \<not> list_all is_str sl \<longrightarrow>
        get_sections_content db (Some d) (Some sl) fx =
          (Inl (ValueError NonStringIdentifier), fx))"
  by (simp add: get_sections_content_def)

text \<open>
  When the lookup finds no document, and when no section of the document matches a
  pattern, the \<open>ValueError\<close> raised in the \<open>try\<close> block leaves the function inside the
  \<open>Exception\<close> of the \<open>except\<close> clause.
\<close>

lemma not_found_and_no_match_wrapped:
  assumes "sl \<noteq> []" "list_all is_str sl" "outage db OpenCursor = None"
    "outage db (GetDocument d) = None"
  shows "get_document_by_id db d = None \<Longrightarrow>
      fst (get_sections_content db (Some d) (Some sl) fx) =
        Inl (Exception In_fetch_sections_content (ValueError (DocumentNotFound d)))"
    and "get_document_by_id db d = Some doc \<Longrightarrow>
      outage db (PathFetch (id_doc doc) (map str_of sl)) = None \<Longrightarrow>
      matched_sections (lc_ctype db) (section_table db) (id_doc doc) (map str_of sl) = [] \<Longrightarrow>
      fst (get_sections_content db (Some d) (Some sl) fx) =
        Inl (Exception In_fetch_sections_content
               (ValueError (NoSectionsFound (spec doc) (version doc) sl)))"
  using assms try_block_not_found[of db d sl fx] try_block_no_match[of db d doc sl fx]
  by (simp_all add: get_sections_content_def)

text \<open>
  C8, on the code. The invalid arguments raise a \<open>ValueError\<close> before anything reaches
  the store. An unknown document id and a pattern that matches nothing do not: the caller
  receives a plain \<open>Exception\<close>, whose cause is the \<open>ValueError\<close> of the document not found
  or of no sections found.
\<close>

theorem not_found_and_no_match_not_value_errors:
  "get_sections_content scenario_db None (Some [PStr ''5.2'']) [] =
      (Inl (ValueError MissingDocId), [])
   \<and> get_sections_content scenario_db (Some ''d1'') None [] =
      (Inl (ValueError MissingSectionList), [])
   \<and> get_sections_content scenario_db (Some ''d1'') (Some []) [] =
      (Inl (ValueError MissingSectionList), [])
   \<and> get_sections_content scenario_db (Some ''d1'') (Some [PStr ''5.2'', PInt 3]) [] =
      (Inl (ValueError NonStringIdentifier), [])
   \<and> map_sum class_of id
        (fst (get_sections_content scenario_db (Some ''d0'') (Some [PStr ''5.2'']) [])) =
      Inl Exception_class
   \<and> map_sum cause id
        (fst (get_sections_content scenario_db (Some ''d0'') (Some [PStr ''5.2'']) [])) =
      Inl (Some (ValueError (DocumentNotFound ''d0'')))
   \<and> map_sum class_of id
        (fst (get_sections_content scenario_db (Some ''d1'') (Some [PStr ''9.9'']) [])) =
      Inl Exception_class
   \<and> map_sum cause id
        (fst (get_sections_content scenario_db (Some ''d1'') (Some [PStr ''9.9'']) [])) =
      Inl (Some (ValueError (NoSectionsFound ''38.331'' ''17.0.0'' [PStr ''9.9''])))
   \<and> Exception_class \<noteq> ValueError_class"
  by code_simp

text \<open>
  C5, on the code. An unknown document id, a pattern that matches nothing and a failure
  of the store all leave \<open>get_sections_content\<close> as an exception of the same class, the
  plain \<open>Exception\<close> of the \<open>except\<close> clause with the original as its cause, and the route
  answers 500 to each.
\<close>

theorem not_found_raised_as_plain_exception:
  "fst (get_sections_content scenario_db (Some ''d0'') (Some [PStr ''5.2'']) []) =
      Inl (Exception In_fetch_sections_content (ValueError (DocumentNotFound ''d0'')))
   \<and> fst (get_sections_content scenario_db (Some ''d1'') (Some [PStr ''9.9'']) []) =
      Inl (Exception In_fetch_sections_content
             (ValueError (NoSectionsFound ''38.331'' ''17.0.0'' [PStr ''9.9''])))
   \<and> fst (get_sections_content failing_db (Some ''d1'') (Some [PStr ''5.2'']) []) =
      Inl (Exception In_fetch_sections_content (StoreError ''connection lost''))
   \<and> class_of (Exception In_fetch_sections_content (ValueError (DocumentNotFound ''d0''))) =
      class_of (Exception In_fetch_sections_content (StoreError ''connection lost''))
   \<and> class_of (Exception In_fetch_sections_content
                 (ValueError (NoSectionsFound ''38.331'' ''17.0.0'' [PStr ''9.9'']))) =
      class_of (Exception In_fetch_sections_content (StoreError ''connection lost''))
   \<and> route_except (Exception In_fetch_sections_content (ValueError (DocumentNotFound ''d0''))) =
      HTTPException 500 ''Internal server error while fetching graph''
   \<and> route_except (Exception In_fetch_sections_content (StoreError ''connection lost'')) =
      HTTPException 500 ''Internal server error while fetching graph''"
  by code_simp

end
